theory Spec2Isabelle
  imports Complex_Main
begin

section \<open>Python values shared by both modules\<close>

text \<open>
  Python strings are modelled as HOL strings whose characters are the code points
  below 256 (Latin-1); the two literals of the source outside ASCII are the
  multiplication sign (code point 215) in the processing-log line and in the summary.
  An exception object is its class name, its message and whether it is an instance of
  \<open>Exception\<close>, which is what a handler \<open>except Exception\<close> catches: true of
  ValueError, AttributeError, OSError and the like, false of KeyboardInterrupt,
  SystemExit, GeneratorExit and every other class that derives from \<open>BaseException\<close>
  only. \<open>str(e)\<close> is the message.
\<close>

datatype exn = Exn (exn_class: string) (exn_message: string) (is_Exception: bool)


definition ValueError :: "string \<Rightarrow> exn" where
  "ValueError m = Exn ''ValueError'' m True"

definition AttributeError :: "string \<Rightarrow> exn" where
  "AttributeError m = Exn ''AttributeError'' m True"

text \<open>\<open>str.isspace\<close> on one character, for the code points below 256.\<close>

definition py_isspace :: "char \<Rightarrow> bool" where
  "py_isspace c = ((of_char c :: nat) \<in> set [9, 10, 11, 12, 13, 28, 29, 30, 31, 32, 133, 160])"

text \<open>\<open>s.strip()\<close> with no argument: whitespace removed at both ends.\<close>

definition py_strip :: "string \<Rightarrow> string" where
  "py_strip s = rev (dropWhile py_isspace (rev (dropWhile py_isspace s)))"

text \<open>\<open>str(n)\<close> for an integer: decimal digits, a minus sign for a negative number.\<close>

definition digit_char :: "nat \<Rightarrow> char" where
  "digit_char d = ''0123456789'' ! d"

fun py_str_nat :: "nat \<Rightarrow> string" where
  "py_str_nat n = (if n < 10 then [digit_char n] else py_str_nat (n div 10) @ [digit_char (n mod 10)])"

declare py_str_nat.simps [simp del]

definition py_str_int :: "int \<Rightarrow> string" where
  "py_str_int i = (if i < 0 then CHR ''-'' # py_str_nat (nat (- i)) else py_str_nat (nat i))"

section \<open>client.py: the events of the engine's debug stream\<close>

text \<open>
  \<open>AIMessage.content\<close> is a string or a list of content blocks. A message is a
  \<open>HumanMessage\<close>, an \<open>AIMessage\<close> or any other object (\<open>isinstance(msg, AIMessage)\<close>
  is false for the first and the last).
\<close>

datatype content = Text string | Blocks "string list"

datatype message = HumanMessage content | AIMessage content | OtherMessage content

text \<open>\<open>isinstance(msg, AIMessage)\<close>.\<close>

fun is_AIMessage :: "message \<Rightarrow> bool" where
  "is_AIMessage (AIMessage c) = True"
| "is_AIMessage (HumanMessage c) = False"
| "is_AIMessage (OtherMessage c) = False"

text \<open>
  An element of a \<open>task_result\<close> payload's \<open>result\<close>: a 2-tuple of a key and a value,
  the value a list (of messages and other objects) or something else; or an object
  that is not a 2-tuple.
\<close>

datatype result_value = MessageList "message list" | OtherValue

datatype result_item = Pair string result_value | NotPair

text \<open>
  An event dictionary, read the way \<open>_extract_response\<close> reads it:
  \<open>etype\<close> is \<open>event.get("type")\<close>, \<open>payload_result\<close> is
  \<open>event.get("payload", {}).get("result", [])\<close> and \<open>payload_values_messages\<close> is
  \<open>event.get("payload", {}).get("values", {}).get("messages", [])\<close>.
\<close>

record event =
  etype :: string
  payload_result :: "result_item list"
  payload_values_messages :: "message list"

text \<open>
  The two shapes of event the debug stream produces: a \<open>task_result\<close> whose result is
  \<open>[("messages", msgs)]\<close>, and a \<open>checkpoint\<close> whose values hold \<open>msgs\<close>.
\<close>

definition task_event :: "message list \<Rightarrow> event" where
  "task_event msgs =
     \<lparr>etype = ''task_result'', payload_result = [Pair ''messages'' (MessageList msgs)],
      payload_values_messages = []\<rparr>"

definition checkpoint_event :: "message list \<Rightarrow> event" where
  "checkpoint_event msgs =
     \<lparr>etype = ''checkpoint'', payload_result = [], payload_values_messages = msgs\<rparr>"

text \<open>Python truthiness of a message content.\<close>

fun content_truthy :: "content \<Rightarrow> bool" where
  "content_truthy (Text s) = (s \<noteq> [])"
| "content_truthy (Blocks bs) = (bs \<noteq> [])"

text \<open>
  \<open>msg.content.strip() if msg.content else ""\<close>: a non-empty list of blocks has no
  \<open>strip\<close> and raises AttributeError.
\<close>

definition no_strip_message :: string where
  "no_strip_message =
     CHR 0x27 # ''list'' @ CHR 0x27 # '' object has no attribute '' @ CHR 0x27 # ''strip'' @ [CHR 0x27]"

definition stripped_content :: "content \<Rightarrow> exn + string" where
  "stripped_content c =
     (if content_truthy c
      then (case c of
              Text s \<Rightarrow> Inr (py_strip s)
            | Blocks bs \<Rightarrow> Inl (AttributeError no_strip_message))
      else Inr [])"

text \<open>
  The inner loop \<open>for msg in reversed(value)\<close>, on the list already reversed:
  the first AIMessage whose stripped content is non-empty, or whose content is the
  empty string, ends the search.
\<close>

fun last_ai_answer :: "message list \<Rightarrow> exn + string option" where
  "last_ai_answer [] = Inr None"
| "last_ai_answer (AIMessage c # ms) =
     (case stripped_content c of
        Inl e \<Rightarrow> Inl e
      | Inr content \<Rightarrow>
          if content \<noteq> [] \<or> c = Text [] then Inr (Some content) else last_ai_answer ms)"
| "last_ai_answer (HumanMessage c # ms) = last_ai_answer ms"
| "last_ai_answer (OtherMessage c # ms) = last_ai_answer ms"

text \<open>The loop \<open>for item in result\<close> of the \<open>task_result\<close> branch.\<close>

fun scan_result :: "result_item list \<Rightarrow> exn + string option" where
  "scan_result [] = Inr None"
| "scan_result (Pair key (MessageList msgs) # items) =
     (if key = ''messages''
      then (case last_ai_answer (rev msgs) of
              Inl e \<Rightarrow> Inl e
            | Inr (Some a) \<Rightarrow> Inr (Some a)
            | Inr None \<Rightarrow> scan_result items)
      else scan_result items)"
| "scan_result (Pair key OtherValue # items) = scan_result items"
| "scan_result (NotPair # items) = scan_result items"

text \<open>The body of the outer loop for one event: the \<open>if\<close>/\<open>elif\<close> on the event type.\<close>

definition event_answer :: "event \<Rightarrow> exn + string option" where
  "event_answer ev =
     (if etype ev = ''task_result'' then scan_result (payload_result ev)
      else if etype ev = ''checkpoint''
      then (if payload_values_messages ev \<noteq> []
            then last_ai_answer (rev (payload_values_messages ev))
            else Inr None)
      else Inr None)"

text \<open>The outer loop \<open>for event in reversed(events)\<close>, on the list already reversed.\<close>

fun scan_events :: "event list \<Rightarrow> exn + string" where
  "scan_events [] = Inr ''No response generated.''"
| "scan_events (ev # evs) =
     (case event_answer ev of
        Inl e \<Rightarrow> Inl e
      | Inr (Some a) \<Rightarrow> Inr a
      | Inr None \<Rightarrow> scan_events evs)"

text \<open>\<open>AgentClient._extract_response\<close>.\<close>

definition extract_response :: "event list \<Rightarrow> exn + string" where
  "extract_response events =
     (if events = [] then Inr ''No response generated.'' else scan_events (rev events))"

section \<open>data_manager.py: the dataset\<close>

text \<open>
  A DataFrame is its row labels and its columns; a column has a label, a dtype and one
  cell for each row. A cell is a number, a string (in a column that is not numeric) or
  missing (\<open>NaN\<close> or \<open>None\<close>). A dtype is \<open>object\<close>, a numeric one, or any other
  (string, category, datetime): \<open>OtherDtype\<close> stands for every dtype that is not
  equal to \<open>'object'\<close> and not numeric.
\<close>

datatype cell = Num real | Str string | NaN

datatype dtype = ObjectDtype | NumericDtype | OtherDtype

record column =
  col_label :: string
  col_dtype :: dtype
  col_cells :: "cell list"

record dataframe =
  df_index :: "string list"
  df_columns :: "column list"

definition shape :: "dataframe \<Rightarrow> nat \<times> nat" where
  "shape df = (length (df_index df), length (df_columns df))"

text \<open>What a caller can pass as \<open>data\<close>.\<close>

datatype py_data = PyNone | NotDataFrame | DataFrame dataframe

text \<open>
  A Python object as far as this module looks at it: its \<open>str()\<close> rendering and,
  for a list or a tuple, its elements.
\<close>

datatype py_value = PyScalar string | PySeq "py_value list" string


type_synonym py_dict = "(string \<times> py_value) list"

text \<open>A figure is a value here: its traces (opaque) and the title of its layout.\<close>

record figure =
  fig_traces :: string
  fig_layout_title :: "string option"

text \<open>The derived matrix: built from the table, or the 2 x 2 placeholder.\<close>

datatype anndata = AnnData dataframe | DummyAnnData

text \<open>
  The library calls whose outcome the module does not decide are parameters:
  the number parser of \<open>pd.to_numeric\<close>, the exception \<open>fillna(0)\<close> raises (if any) when
  it meets a missing cell in a column of another dtype than object and numeric (a
  category column has no category 0, a string column takes no number), whether
  \<open>sc.AnnData\<close> raises on the table and on the placeholder, the formatted memory
  footprint (with the number of decimals asked for), the three serialisers the export
  guards with \<open>try\<close>, and the file system: \<open>write_error\<close> gives the exception that
  creating or writing the file or directory of that name raises. Each gives the
  exception raised, if any.
\<close>

record env =
  parse_number :: "string \<Rightarrow> real option"
  fillna_error :: "column \<Rightarrow> exn option"
  anndata_error :: "dataframe \<Rightarrow> exn option"
  dummy_anndata_error :: "exn option"
  memory_usage_mb :: "dataframe \<Rightarrow> nat \<Rightarrow> string"
  write_h5ad_error :: "anndata \<Rightarrow> exn option"
  write_html_error :: "figure \<Rightarrow> string \<Rightarrow> exn option"
  write_image_error :: "figure \<Rightarrow> string \<Rightarrow> exn option"
  write_error :: "string \<Rightarrow> exn option"

text \<open>
  \<open>pd.to_numeric(column, errors='coerce')\<close>: a number stays, a string becomes the
  number it parses to or missing, a missing cell stays missing. The call does not
  raise under \<open>coerce\<close>; the handler of the source stays in the model.
\<close>

fun coerce_cell :: "(string \<Rightarrow> real option) \<Rightarrow> cell \<Rightarrow> cell" where
  "coerce_cell parse (Num x) = Num x"
| "coerce_cell parse (Str t) = (case parse t of Some x \<Rightarrow> Num x | None \<Rightarrow> NaN)"
| "coerce_cell parse NaN = NaN"

definition pd_to_numeric :: "(string \<Rightarrow> real option) \<Rightarrow> cell list \<Rightarrow> exn + cell list" where
  "pd_to_numeric parse cells = Inr (map (coerce_cell parse) cells)"

definition convert_column :: "(string \<Rightarrow> real option) \<Rightarrow> column \<Rightarrow> column" where
  "convert_column parse c =
     (if col_dtype c = ObjectDtype
      then (case pd_to_numeric parse (col_cells c) of
              Inr cells \<Rightarrow> c\<lparr>col_dtype := NumericDtype, col_cells := cells\<rparr>
            | Inl e \<Rightarrow> c)
      else c)"

definition no_dtype_message :: string where
  "no_dtype_message =
     CHR 0x27 # ''DataFrame'' @ CHR 0x27 # '' object has no attribute '' @ CHR 0x27 # ''dtype'' @ [CHR 0x27]"

text \<open>
  The loop \<open>for col in data.columns\<close>. \<open>data[col]\<close> is a DataFrame when the label
  \<open>col\<close> names more than one column, and \<open>.dtype\<close> on it raises AttributeError
  outside the inner \<open>try\<close>.
\<close>

fun convert_columns :: "(string \<Rightarrow> real option) \<Rightarrow> string list \<Rightarrow> column list \<Rightarrow> exn + column list" where
  "convert_columns parse labels [] = Inr []"
| "convert_columns parse labels (c # cs) =
     (if count_list labels (col_label c) > 1 then Inl (AttributeError no_dtype_message)
      else (case convert_columns parse labels cs of
              Inl e \<Rightarrow> Inl e
            | Inr cs' \<Rightarrow> Inr (convert_column parse c # cs')))"

fun fill_cell :: "cell \<Rightarrow> cell" where
  "fill_cell NaN = Num 0"
| "fill_cell (Num x) = Num x"
| "fill_cell (Str t) = Str t"

text \<open>
  \<open>data.fillna(0)\<close>: every missing cell becomes 0. In a column of dtype object or
  numeric that always works; in a column of another dtype that holds a missing cell
  the call raises when \<open>fillna_error\<close> says so.
\<close>

definition fillna_raises :: "env \<Rightarrow> column \<Rightarrow> exn option" where
  "fillna_raises env c =
     (if col_dtype c = OtherDtype \<and> NaN \<in> set (col_cells c) then fillna_error env c else None)"

definition filled_column :: "column \<Rightarrow> column" where
  "filled_column c = c\<lparr>col_cells := map fill_cell (col_cells c)\<rparr>"

fun fill_columns :: "env \<Rightarrow> column list \<Rightarrow> exn + column list" where
  "fill_columns env [] = Inr []"
| "fill_columns env (c # cs) =
     (case fillna_raises env c of
        Some e \<Rightarrow> Inl e
      | None \<Rightarrow>
          (case fill_columns env cs of
             Inl e \<Rightarrow> Inl e
           | Inr cs' \<Rightarrow> Inr (filled_column c # cs')))"

definition fillna0 :: "env \<Rightarrow> dataframe \<Rightarrow> exn + dataframe" where
  "fillna0 env df =
     (case fill_columns env (df_columns df) of
        Inl e \<Rightarrow> Inl e
      | Inr cols \<Rightarrow> Inr (df\<lparr>df_columns := cols\<rparr>))"

section \<open>data_manager.py: the state of a DataManager\<close>

text \<open>
  A logged parameter dictionary is held by reference: the record stores its address
  and a heap maps addresses to dictionaries, so that a later mutation by the caller
  is a change of the heap.
\<close>

datatype py_plot = Figure figure | NotFigure

record plot_entry =
  plot_id :: string
  plot_figure :: figure
  plot_title :: string
  plot_timestamp :: string
  plot_source :: "string option"
  plot_created_at :: string

type_synonym addr = nat


record tool_usage_record =
  tool :: string
  parameters :: addr
  description :: "string option"
  timestamp :: string

record data_manager =
  current_data :: "dataframe option"
  current_metadata :: py_dict
  adata :: "anndata option"
  latest_plots :: "plot_entry list"
  plot_counter :: int
  processing_log :: "string list"
  tool_usage_history :: "tool_usage_record list"
  max_plots_history :: int

text \<open>\<open>DataManager.__init__\<close> (the workspace directories are not part of the model).\<close>

definition DataManager_init :: data_manager where
  "DataManager_init =
     \<lparr>current_data = None, current_metadata = [], adata = None, latest_plots = [],
      plot_counter = 0, processing_log = [], tool_usage_history = [],
      max_plots_history = 50\<rparr>"

definition has_data :: "data_manager \<Rightarrow> bool" where
  "has_data s =
     (case current_data s of
        None \<Rightarrow> False
      | Some df \<Rightarrow> fst (shape df) > 0 \<and> snd (shape df) > 0)"

text \<open>
  \<open>_create_anndata\<close>: nothing when no data is loaded; otherwise the matrix of the
  table, the placeholder when building it raises, and \<open>None\<close> when the placeholder
  raises too. It never raises. (The scalars copied to \<open>uns\<close> are not modelled.)
\<close>

definition create_anndata :: "env \<Rightarrow> data_manager \<Rightarrow> data_manager" where
  "create_anndata env s =
     (if \<not> has_data s then s
      else (case current_data s of
              None \<Rightarrow> s
            | Some df \<Rightarrow>
                (case anndata_error env df of
                   None \<Rightarrow> s\<lparr>adata := Some (AnnData df)\<rparr>
                 | Some e \<Rightarrow>
                     (case dummy_anndata_error env of
                        None \<Rightarrow> s\<lparr>adata := Some DummyAnnData\<rparr>
                      | Some e' \<Rightarrow> s\<lparr>adata := None\<rparr>))))"

definition times_sign :: string where
  "times_sign = [CHR 0xD7]"

definition loaded_line :: "dataframe \<Rightarrow> string" where
  "loaded_line df =
     ''Data loaded: '' @ py_str_int (int (fst (shape df))) @ '' samples '' @ times_sign @ '' ''
       @ py_str_int (int (snd (shape df))) @ '' features''"

text \<open>
  The \<open>try\<close> block of \<open>set_data\<close>: the result and the state at the point where the
  block returns or raises.
\<close>

definition set_data_try ::
  "env \<Rightarrow> data_manager \<Rightarrow> py_data \<Rightarrow> py_dict option \<Rightarrow> (exn + dataframe) \<times> data_manager" where
  "set_data_try env s data metadata =
     (case data of
        PyNone \<Rightarrow> (Inl (ValueError ''Data must be a pandas DataFrame.''), s)
      | NotDataFrame \<Rightarrow> (Inl (ValueError ''Data must be a pandas DataFrame.''), s)
      | DataFrame df \<Rightarrow>
          if fst (shape df) = 0 \<or> snd (shape df) = 0
          then (Inl (ValueError ''DataFrame is empty.''), s)
          else (case (if list_ex (\<lambda>c. col_dtype c = ObjectDtype) (df_columns df)
                      then convert_columns (parse_number env) (map col_label (df_columns df))
                             (df_columns df)
                      else Inr (df_columns df)) of
                  Inl e \<Rightarrow> (Inl e, s)
                | Inr cols \<Rightarrow>
                    (case fillna0 env (df\<lparr>df_columns := cols\<rparr>) of
                       Inl e \<Rightarrow> (Inl e, s)
                     | Inr data' \<Rightarrow>
                         let s1 = s\<lparr>current_data := Some data',
                                    current_metadata := (case metadata of None \<Rightarrow> [] | Some m \<Rightarrow> m)\<rparr>;
                             s2 = create_anndata env s1;
                             s3 = s2\<lparr>processing_log := processing_log s2 @ [loaded_line data']\<rparr>
                         in (Inr data', s3))))"

text \<open>
  \<open>DataManager.set_data\<close>: the handler \<open>except Exception\<close> clears the dataset, the
  metadata and the derived matrix and raises the exception again.
\<close>

definition set_data ::
  "env \<Rightarrow> data_manager \<Rightarrow> py_data \<Rightarrow> py_dict option \<Rightarrow> (exn + dataframe) \<times> data_manager" where
  "set_data env s data metadata =
     (case set_data_try env s data metadata of
        (Inl e, s') \<Rightarrow>
          if is_Exception e
          then (Inl e, s'\<lparr>current_data := None, current_metadata := [], adata := None\<rparr>)
          else (Inl e, s')
      | (Inr d, s') \<Rightarrow> (Inr d, s'))"

text \<open>\<open>xs[start:]\<close> on a Python list, for any integer \<open>start\<close>.\<close>

definition py_slice_from :: "'a list \<Rightarrow> int \<Rightarrow> 'a list" where
  "py_slice_from xs start =
     (let n = int (length xs);
          lo = (if start < 0 then max (n + start) 0 else min start n)
      in drop (nat lo) xs)"

record data_summary =
  summary_shape :: "nat \<times> nat"
  summary_columns :: "string list"
  summary_sample_names :: "string list"
  summary_data_types :: "dtype \<Rightarrow> nat option"
  summary_memory_usage :: string
  summary_metadata_keys :: "string list"
  summary_processing_log :: "string list"

datatype summary = NoDataLoaded | DataLoaded data_summary

text \<open>\<open>data.dtypes.value_counts().to_dict()\<close>: the dtypes that occur, with their counts.\<close>

definition dtype_counts :: "dataframe \<Rightarrow> dtype \<Rightarrow> nat option" where
  "dtype_counts df d =
     (let n = length (filter (\<lambda>c. col_dtype c = d) (df_columns df))
      in if n = 0 then None else Some n)"

definition get_data_summary :: "env \<Rightarrow> data_manager \<Rightarrow> summary" where
  "get_data_summary env s =
     (if \<not> has_data s then NoDataLoaded
      else (case current_data s of
              None \<Rightarrow> NoDataLoaded
            | Some data \<Rightarrow>
                DataLoaded
                  \<lparr>summary_shape = shape data,
                   summary_columns = take 10 (map col_label (df_columns data)),
                   summary_sample_names = take 5 (df_index data),
                   summary_data_types = dtype_counts data,
                   summary_memory_usage = memory_usage_mb env data 1 @ '' MB'',
                   summary_metadata_keys = map fst (current_metadata s),
                   summary_processing_log = py_slice_from (processing_log s) (- 5)\<rparr>))"

section \<open>data_manager.py: the plot collection\<close>

text \<open>Python truthiness of an optional string argument.\<close>

fun truthy :: "string option \<Rightarrow> bool" where
  "truthy None = False"
| "truthy (Some t) = (t \<noteq> [])"

definition title_or :: "string option \<Rightarrow> string \<Rightarrow> string" where
  "title_or title dflt = (case title of None \<Rightarrow> dflt | Some t \<Rightarrow> if t = [] then dflt else t)"

text \<open>
  The dictionary \<open>plot_entry\<close> that \<open>add_plot\<close> builds, from the counter already
  incremented; the figure stored is the caller's, with the title set on its layout when
  a title is given.
\<close>

definition make_plot_entry ::
  "int \<Rightarrow> figure \<Rightarrow> string option \<Rightarrow> string option \<Rightarrow> string \<Rightarrow> string \<Rightarrow> plot_entry" where
  "make_plot_entry counter fig title source now_iso now =
     \<lparr>plot_id = ''plot_'' @ py_str_int counter,
      plot_figure = (if truthy title then fig\<lparr>fig_layout_title := title\<rparr> else fig),
      plot_title = title_or title ''Untitled'',
      plot_timestamp = now_iso, plot_source = source, plot_created_at = now\<rparr>"

text \<open>
  \<open>DataManager.add_plot\<close>, with the two clock readings as arguments. The value
  returned is the id, or \<open>None\<close> when the argument is not a figure (the ValueError is
  caught inside).
\<close>

definition add_plot ::
  "data_manager \<Rightarrow> py_plot \<Rightarrow> string option \<Rightarrow> string option \<Rightarrow> string \<Rightarrow> string
     \<Rightarrow> string option \<times> data_manager" where
  "add_plot s plot title source now_iso now =
     (case plot of
        NotFigure \<Rightarrow> (None, s)
      | Figure fig \<Rightarrow>
          let counter = plot_counter s + 1;
              plot_entry = make_plot_entry counter fig title source now_iso now;
              appended = latest_plots s @ [plot_entry];
              kept = (if int (length appended) > max_plots_history s then tl appended else appended)
          in (Some (plot_id plot_entry), s\<lparr>plot_counter := counter, latest_plots := kept\<rparr>))"

definition clear_plots :: "data_manager \<Rightarrow> data_manager" where
  "clear_plots s = s\<lparr>latest_plots := []\<rparr>"



definition get_latest_plots :: "data_manager \<Rightarrow> int option \<Rightarrow> plot_entry list" where
  "get_latest_plots s n =
     (case n of
        None \<Rightarrow> latest_plots s
      | Some k \<Rightarrow> py_slice_from (latest_plots s) (- k))"

record plot_info =
  info_id :: string
  info_title :: string
  info_timestamp :: string
  info_source :: "string option"

definition get_plot_history :: "data_manager \<Rightarrow> plot_info list" where
  "get_plot_history s =
     map (\<lambda>p. \<lparr>info_id = plot_id p, info_title = plot_title p,
                info_timestamp = plot_timestamp p, info_source = plot_source p\<rparr>)
       (latest_plots s)"

section \<open>data_manager.py: tool usage and the technical summary\<close>

text \<open>
  \<open>DataManager.log_tool_usage\<close>, with the formatted clock reading as an argument.
  The dictionary appended holds the caller's \<open>parameters\<close> object itself: its address.
\<close>

definition log_tool_usage ::
  "data_manager \<Rightarrow> string \<Rightarrow> addr \<Rightarrow> string option \<Rightarrow> string \<Rightarrow> data_manager" where
  "log_tool_usage s tool_name params descr now =
     s\<lparr>tool_usage_history := tool_usage_history s @
         [\<lparr>tool = tool_name, parameters = params, description = descr, timestamp = now\<rparr>]\<rparr>"











section \<open>data_manager.py: the export package\<close>
























section \<open>client.py: a non-streaming query turn\<close>

record agent_client =
  session_id :: string
  messages :: "message list"
  data_manager :: data_manager







text \<open>Runs of operations on a DataManager, for the properties over its lifetime.\<close>

datatype operation =
    AddPlot py_plot "string option" "string option" string string
  | ClearPlots
  | SetData env py_data "py_dict option"
  | LogToolUsage string addr "string option" string

fun exec :: "operation \<Rightarrow> data_manager \<Rightarrow> data_manager" where
  "exec (AddPlot plot title source now_iso now) s = snd (add_plot s plot title source now_iso now)"
| "exec ClearPlots s = clear_plots s"
| "exec (SetData env data metadata) s = snd (set_data env s data metadata)"
| "exec (LogToolUsage tool_name params descr now) s = log_tool_usage s tool_name params descr now"

fun run_ops :: "operation list \<Rightarrow> data_manager \<Rightarrow> data_manager" where
  "run_ops [] s = s"
| "run_ops (x # ops) s = run_ops ops (exec x s)"



text \<open>A run of \<open>add_plot\<close> calls, one for each tuple of arguments.\<close>

type_synonym plot_args = "figure \<times> string option \<times> string option \<times> string \<times> string"


fun entry_of :: "int \<Rightarrow> plot_args \<Rightarrow> plot_entry" where
  "entry_of counter (fig, title, source, now_iso, now) =
     make_plot_entry counter fig title source now_iso now"

text \<open>The entries that a run of \<open>add_plot\<close> calls builds when the counter starts at \<open>k\<close>.\<close>

fun entries_from :: "int \<Rightarrow> plot_args list \<Rightarrow> plot_entry list" where
  "entries_from k [] = []"
| "entries_from k (a # as) = entry_of (k + 1) a # entries_from (k + 1) as"





section \<open>Concrete inputs for the instances\<close>

definition example_env :: env where
  "example_env =
     \<lparr>parse_number = (\<lambda>t. if t = ''7'' then Some 7 else None),
      fillna_error = (\<lambda>c. Some (Exn ''TypeError'' ''Cannot setitem on a Categorical with a new category'' True)),
      anndata_error = (\<lambda>df. None),
      dummy_anndata_error = None,
      memory_usage_mb = (\<lambda>df digits. ''0.0''),
      write_h5ad_error = (\<lambda>a. None),
      write_html_error = (\<lambda>fig path. None),
      write_image_error =
        (\<lambda>fig path. if fig_traces fig = ''broken'' then Some (ValueError ''no renderer'') else None),
      write_error = (\<lambda>name. None)\<rparr>"

definition example_table :: dataframe where
  "example_table =
     \<lparr>df_index = [''s1'', ''s2''],
      df_columns =
        [\<lparr>col_label = ''g1'', col_dtype = NumericDtype, col_cells = [Num 1, NaN]\<rparr>,
         \<lparr>col_label = ''g2'', col_dtype = ObjectDtype, col_cells = [Str ''7'', Str ''n/a'']\<rparr>]\<rparr>"

definition string_table :: dataframe where
  "string_table =
     \<lparr>df_index = [''s1'', ''s2''],
      df_columns =
        [\<lparr>col_label = ''g1'', col_dtype = OtherDtype, col_cells = [Str ''7'', Str ''n/a'']\<rparr>]\<rparr>"

definition category_table :: dataframe where
  "category_table =
     \<lparr>df_index = [''s1'', ''s2''],
      df_columns =
        [\<lparr>col_label = ''batch'', col_dtype = OtherDtype, col_cells = [Str ''a'', NaN]\<rparr>]\<rparr>"

definition repeated_label_table :: dataframe where
  "repeated_label_table =
     \<lparr>df_index = [''s1''],
      df_columns =
        [\<lparr>col_label = ''g'', col_dtype = ObjectDtype, col_cells = [Str ''7'']\<rparr>,
         \<lparr>col_label = ''g'', col_dtype = NumericDtype, col_cells = [Num 1]\<rparr>]\<rparr>"

definition empty_table :: dataframe where
  "empty_table = \<lparr>df_index = [], df_columns = []\<rparr>"

definition loaded_manager :: data_manager where
  "loaded_manager = snd (set_data example_env DataManager_init (DataFrame example_table) None)"

definition example_figure :: "string \<Rightarrow> py_plot" where
  "example_figure traces = Figure \<lparr>fig_traces = traces, fig_layout_title = None\<rparr>"










section \<open>Properties of the response extraction\<close>

lemma is_Exception_ValueError [simp]: "is_Exception (ValueError m)"
  by (simp add: ValueError_def)

lemma is_Exception_AttributeError [simp]: "is_Exception (AttributeError m)"
  by (simp add: AttributeError_def)

lemma py_isspace_space [simp]: "py_isspace (CHR '' '')"
  by (simp add: py_isspace_def)

lemma py_strip_Nil [simp]: "py_strip [] = []"
  by (simp add: py_strip_def)

lemma strip_hello: "py_strip '' hello '' = ''hello''"
  by (simp add: py_strip_def py_isspace_def)

lemma scan_events_skip:
  "\<forall>x \<in> set evs. event_answer x = Inr None \<Longrightarrow> scan_events (evs @ rest) = scan_events rest"
  by (induction evs) simp_all

lemma scan_events_first_answer:
  assumes "event_answer ev = Inr (Some a)"
    and "\<forall>x \<in> set later. event_answer x = Inr None"
  shows "scan_events (rev later @ ev # earlier) = Inr a"
proof -
  have "\<forall>x \<in> set (rev later). event_answer x = Inr None"
    using assms(2) by simp
  then have "scan_events (rev later @ ev # earlier) = scan_events (ev # earlier)"
    by (rule scan_events_skip)
  with assms(1) show ?thesis by simp
qed

lemma last_ai_answer_skip:
  "\<forall>m \<in> set ms. \<not> is_AIMessage m \<Longrightarrow> last_ai_answer (ms @ rest) = last_ai_answer rest"
proof (induction ms)
  case Nil
  show ?case by simp
next
  case (Cons m ms)
  then show ?case by (cases m) simp_all
qed

lemma last_ai_answer_text:
  assumes "c = [] \<or> py_strip c \<noteq> []"
  shows "last_ai_answer (AIMessage (Text c) # ms) = Inr (Some (py_strip c))"
  using assms by (auto simp: stripped_content_def)

lemma task_final:
  "event_answer (task_event [HumanMessage (Text ''hi''), AIMessage (Text ''final'')])
     = Inr (Some ''final'')"
  by (simp add: event_answer_def task_event_def stripped_content_def py_strip_def py_isspace_def)

lemma checkpoint_draft:
  "event_answer (checkpoint_event [AIMessage (Text ''draft'')]) = Inr (Some ''draft'')"
  by (simp add: event_answer_def checkpoint_event_def stripped_content_def py_strip_def py_isspace_def)

text \<open>
  What the loop does with the two kinds of event: the answer of an event is returned
  when every event after it in the sequence gives no answer and raises nothing, of
  whichever kind those events are.
\<close>

lemma extract_response_most_recent_answer:
  assumes "event_answer ev = Inr (Some a)"
    and "\<forall>x \<in> set later. event_answer x = Inr None"
  shows "extract_response (earlier @ ev # later) = Inr a"
  using scan_events_first_answer [OF assms, of "rev earlier"]
  by (simp add: extract_response_def)

text \<open>
  Claim C1 says that every \<open>task_result\<close> event is consulted before any
  \<open>checkpoint\<close> event, so that the answer of a \<open>task_result\<close> event is returned
  wherever the checkpoint sits; the comments of the source call the checkpoint branch a
  fallback. The code does not do that: it makes one pass from the most recent event to
  the oldest and takes the first answer it meets. Here a \<open>task_result\<close> event yields
  \<open>final\<close>, a checkpoint event after it yields \<open>draft\<close>, and \<open>_extract_response\<close>
  returns \<open>draft\<close>.
\<close>

theorem extract_response_later_checkpoint_wins:
  "event_answer (task_event [HumanMessage (Text ''hi''), AIMessage (Text ''final'')]) = Inr (Some ''final'')
   \<and> event_answer (checkpoint_event [AIMessage (Text ''draft'')]) = Inr (Some ''draft'')
   \<and> extract_response
        [task_event [HumanMessage (Text ''hi''), AIMessage (Text ''final'')],
         checkpoint_event [AIMessage (Text ''draft'')]] = Inr ''draft''"
  by (simp add: task_final checkpoint_draft extract_response_def)

text \<open>
  Claim C3, as the code has it. The claim says that the content of the last assistant
  message is returned verbatim. The code returns it with the whitespace at both ends
  removed: for a \<open>task_result\<close> event whose result is \<open>[("messages", msgs)]\<close>, where the
  last assistant message of \<open>msgs\<close> has a text content \<open>c\<close> that is empty or has a
  character that is not whitespace, the result is \<open>c.strip()\<close>; for \<open>c\<close> empty it is the
  empty string, whatever the earlier messages are.
\<close>

theorem extract_response_last_assistant_stripped:
  assumes "etype ev = ''task_result''"
    and "payload_result ev = [Pair ''messages'' (MessageList (before @ AIMessage (Text c) # after))]"
    and "\<forall>m \<in> set after. \<not> is_AIMessage m"
    and "c = [] \<or> py_strip c \<noteq> []"
  shows "extract_response [ev] = Inr (py_strip c)"
proof -
  have "\<forall>m \<in> set (rev after). \<not> is_AIMessage m"
    using assms(3) by simp
  then have "last_ai_answer (rev after @ AIMessage (Text c) # rev before)
      = last_ai_answer (AIMessage (Text c) # rev before)"
    by (rule last_ai_answer_skip)
  also have "\<dots> = Inr (Some (py_strip c))"
    using assms(4) by (rule last_ai_answer_text)
  finally have "last_ai_answer (rev (before @ AIMessage (Text c) # after)) = Inr (Some (py_strip c))"
    by simp
  then have "event_answer ev = Inr (Some (py_strip c))"
    using assms(1,2) by (simp add: event_answer_def)
  then show ?thesis
    by (simp add: extract_response_def)
qed

text \<open>
  Two instances: a padded answer followed by a user message, and an empty answer after
  an earlier non-empty one (the empty string is returned, not the earlier answer).
\<close>

theorem extract_response_last_assistant_stripped_witness:
  "extract_response
     [task_event ([AIMessage (Text ''early'')] @ AIMessage (Text '' hello '') # [HumanMessage (Text ''bye'')])]
     = Inr ''hello''
   \<and> extract_response
     [task_event ([AIMessage (Text ''early'')] @ AIMessage (Text []) # [])] = Inr []"
proof -
  have t: "etype (task_event ms) = ''task_result''" for ms
    by (simp add: task_event_def)
  have r: "payload_result (task_event (before @ AIMessage (Text c) # after))
      = [Pair ''messages'' (MessageList (before @ AIMessage (Text c) # after))]" for before c after
    by (simp add: task_event_def)
  have a1: "\<forall>m \<in> set [HumanMessage (Text ''bye'')]. \<not> is_AIMessage m" by simp
  have c1: "'' hello '' = [] \<or> py_strip '' hello '' \<noteq> []" by (simp add: strip_hello)
  have a2: "\<forall>m \<in> set []. \<not> is_AIMessage m" by simp
  have c2: "([]::string) = [] \<or> py_strip [] \<noteq> []" by simp
  have "extract_response
     [task_event ([AIMessage (Text ''early'')] @ AIMessage (Text '' hello '') # [HumanMessage (Text ''bye'')])]
     = Inr (py_strip '' hello '')"
    by (rule extract_response_last_assistant_stripped [OF t r a1 c1])
  moreover have "extract_response
     [task_event ([AIMessage (Text ''early'')] @ AIMessage (Text []) # [])] = Inr (py_strip [])"
    by (rule extract_response_last_assistant_stripped [OF t r a2 c2])
  ultimately show ?thesis by (simp add: strip_hello)
qed

text \<open>
  Against C3 as stated: the last assistant message has the content \<open>" hello "\<close> and the
  result is \<open>"hello"\<close>, which is not that content; and when the last assistant message
  holds one space, the result is the content of the assistant message before it.
\<close>

theorem extract_response_verbatim_counterexample:
  "extract_response [task_event [HumanMessage (Text ''hi''), AIMessage (Text '' hello '')]] = Inr ''hello''
   \<and> ''hello'' \<noteq> '' hello ''
   \<and> extract_response [task_event [AIMessage (Text ''first''), AIMessage (Text '' '')]] = Inr ''first''"
  by (simp add: extract_response_def event_answer_def task_event_def stripped_content_def
      py_strip_def py_isspace_def)

section \<open>Properties of the dataset\<close>

lemma count_list_distinct: "distinct xs \<Longrightarrow> x \<in> set xs \<Longrightarrow> count_list xs x = 1"
  by (induction xs) auto

lemma repeated_element_count: "\<not> distinct xs \<Longrightarrow> \<exists>x \<in> set xs. 1 < count_list xs x"
proof (induction xs)
  case Nil
  then show ?case by simp
next
  case (Cons a xs)
  show ?case
  proof (cases "a \<in> set xs")
    case True
    then have "0 < count_list xs a"
      using count_list_0_iff [of xs a] by simp
    then show ?thesis by simp
  next
    case False
    with Cons.prems have "\<not> distinct xs" by simp
    then obtain x where x: "x \<in> set xs" "1 < count_list xs x"
      using Cons.IH by blast
    have "count_list xs x \<le> count_list (a # xs) x" by simp
    with x have "x \<in> set (a # xs)" "1 < count_list (a # xs) x" by simp_all
    then show ?thesis by blast
  qed
qed

lemma convert_columns_at_most_once:
  assumes "\<forall>c \<in> set cs. count_list labels (col_label c) \<le> 1"
  shows "convert_columns parse labels cs = Inr (map (convert_column parse) cs)"
  using assms by (induction cs) auto

lemma convert_columns_ok:
  assumes "distinct (map col_label cs)"
  shows "convert_columns parse (map col_label cs) cs = Inr (map (convert_column parse) cs)"
proof (rule convert_columns_at_most_once)
  show "\<forall>c \<in> set cs. count_list (map col_label cs) (col_label c) \<le> 1"
    using assms by (simp add: count_list_distinct)
qed

lemma convert_columns_repeated_label:
  assumes "c \<in> set cs" and "1 < count_list labels (col_label c)"
  shows "convert_columns parse labels cs = Inl (AttributeError no_dtype_message)"
  using assms by (induction cs) (auto split: sum.splits)

lemma fill_coerce_cell:
  "fill_cell (coerce_cell parse x) =
     (case x of Num v \<Rightarrow> Num v | NaN \<Rightarrow> Num 0
      | Str t \<Rightarrow> (case parse t of Some v \<Rightarrow> Num v | None \<Rightarrow> Num 0))"
  by (cases x) (auto split: option.splits)

lemma fill_cell_cases:
  "fill_cell x = (case x of Num v \<Rightarrow> Num v | NaN \<Rightarrow> Num 0 | Str t \<Rightarrow> Str t)"
  by (cases x) auto

lemma fill_columns_ok:
  assumes "\<forall>c \<in> set cs. fillna_raises env c = None"
  shows "fill_columns env cs = Inr (map filled_column cs)"
  using assms by (induction cs) auto

lemma fillna_raises_convert_column:
  "fillna_raises env (convert_column parse c) = fillna_raises env c"
  by (cases "col_dtype c") (simp_all add: fillna_raises_def convert_column_def pd_to_numeric_def)

text \<open>
  The columns that \<open>set_data\<close> hands to \<open>fillna\<close>: converted by the loop when some
  column is of dtype object, the input's columns otherwise.
\<close>

lemma fill_converted_ok:
  assumes "\<forall>c \<in> set cols. fillna_raises env c = None"
  shows "fill_columns env
           (if list_ex (\<lambda>c. col_dtype c = ObjectDtype) cols
            then map (convert_column parse) cols else cols)
         = Inr (map filled_column
              (if list_ex (\<lambda>c. col_dtype c = ObjectDtype) cols
               then map (convert_column parse) cols else cols))"
proof (rule fill_columns_ok)
  show "\<forall>c \<in> set (if list_ex (\<lambda>c. col_dtype c = ObjectDtype) cols
                     then map (convert_column parse) cols else cols).
          fillna_raises env c = None"
    using assms by (auto simp: fillna_raises_convert_column)
qed

lemma set_data_stores:
  assumes "0 < fst (shape df)" and "0 < snd (shape df)"
    and "\<not> list_ex (\<lambda>c. col_dtype c = ObjectDtype) (df_columns df)
         \<or> distinct (map col_label (df_columns df))"
    and "\<forall>c \<in> set (df_columns df). fillna_raises env c = None"
  shows "set_data env s (DataFrame df) metadata =
     (let cols = (if list_ex (\<lambda>c. col_dtype c = ObjectDtype) (df_columns df)
                  then map (convert_column (parse_number env)) (df_columns df)
                  else df_columns df);
          data' = df\<lparr>df_columns := map filled_column cols\<rparr>;
          s2 = create_anndata env
                 (s\<lparr>current_data := Some data',
                    current_metadata := (case metadata of None \<Rightarrow> [] | Some m \<Rightarrow> m)\<rparr>)
      in (Inr data', s2\<lparr>processing_log := processing_log s2 @ [loaded_line data']\<rparr>))"
proof -
  have conv: "(if list_ex (\<lambda>c. col_dtype c = ObjectDtype) (df_columns df)
         then convert_columns (parse_number env) (map col_label (df_columns df)) (df_columns df)
         else Inr (df_columns df))
      = Inr (if list_ex (\<lambda>c. col_dtype c = ObjectDtype) (df_columns df)
             then map (convert_column (parse_number env)) (df_columns df)
             else df_columns df)"
    using assms(3) by (auto simp: convert_columns_ok)
  show ?thesis
    using assms(1,2) fill_converted_ok [OF assms(4), of "parse_number env"]
    by (simp add: set_data_def set_data_try_def conv fillna0_def Let_def)
qed

text \<open>
  The case left out: an \<open>object\<close> column together with a label that names two columns.
  \<open>set_data\<close> raises AttributeError and leaves no data loaded.
\<close>

lemma set_data_repeated_label_raises:
  assumes "0 < fst (shape df)" and "0 < snd (shape df)"
    and "list_ex (\<lambda>c. col_dtype c = ObjectDtype) (df_columns df)"
    and "\<not> distinct (map col_label (df_columns df))"
  shows "fst (set_data env s (DataFrame df) metadata) = Inl (AttributeError no_dtype_message)"
    and "\<not> has_data (snd (set_data env s (DataFrame df) metadata))"
proof -
  from assms(4) obtain l where "l \<in> set (map col_label (df_columns df))"
    and l: "1 < count_list (map col_label (df_columns df)) l"
    using repeated_element_count by blast
  then obtain c where "c \<in> set (df_columns df)" and "col_label c = l"
    by auto
  with l have "c \<in> set (df_columns df)"
    and "1 < count_list (map col_label (df_columns df)) (col_label c)"
    by simp_all
  then have "convert_columns (parse_number env) (map col_label (df_columns df)) (df_columns df)
      = Inl (AttributeError no_dtype_message)"
    by (rule convert_columns_repeated_label)
  then show "fst (set_data env s (DataFrame df) metadata) = Inl (AttributeError no_dtype_message)"
    and "\<not> has_data (snd (set_data env s (DataFrame df) metadata))"
    using assms(1-3) by (simp_all add: set_data_def set_data_try_def has_data_def)
qed

lemma stored_cell:
  assumes "j < length cols" and "i < length (col_cells (cols ! j))"
  shows "col_cells (map filled_column
            (if list_ex (\<lambda>c. col_dtype c = ObjectDtype) cols
             then map (convert_column parse) cols else cols) ! j) ! i =
         (case col_cells (cols ! j) ! i of
            Num v \<Rightarrow> Num v
          | NaN \<Rightarrow> Num 0
          | Str t \<Rightarrow>
              if col_dtype (cols ! j) = ObjectDtype
              then (case parse t of Some v \<Rightarrow> Num v | None \<Rightarrow> Num 0)
              else Str t)"
proof (cases "col_dtype (cols ! j) = ObjectDtype")
  case True
  then have "list_ex (\<lambda>c. col_dtype c = ObjectDtype) cols"
    using assms(1) by (auto simp: list_ex_iff)
  then show ?thesis
    using assms True
    by (simp add: filled_column_def convert_column_def pd_to_numeric_def fill_coerce_cell
        split: cell.splits)
next
  case False
  then show ?thesis
    using assms
    by (auto simp: filled_column_def convert_column_def pd_to_numeric_def fill_cell_cases
        split: cell.splits)
qed

lemma stored_column_label:
  assumes "j < length cols"
  shows "col_label (map filled_column
            (if list_ex (\<lambda>c. col_dtype c = ObjectDtype) cols
             then map (convert_column parse) cols else cols) ! j) = col_label (cols ! j)"
  using assms by (simp add: filled_column_def convert_column_def pd_to_numeric_def)

lemma stored_column_length:
  assumes "j < length cols"
  shows "length (col_cells (map filled_column
            (if list_ex (\<lambda>c. col_dtype c = ObjectDtype) cols
             then map (convert_column parse) cols else cols) ! j))
         = length (col_cells (cols ! j))"
  using assms by (simp add: filled_column_def convert_column_def pd_to_numeric_def)

lemma stored_column_dtype:
  assumes "j < length cols" and "col_dtype (cols ! j) = ObjectDtype"
  shows "col_dtype (map filled_column
            (if list_ex (\<lambda>c. col_dtype c = ObjectDtype) cols
             then map (convert_column parse) cols else cols) ! j) = NumericDtype"
proof -
  have "list_ex (\<lambda>c. col_dtype c = ObjectDtype) cols"
    using assms by (auto simp: list_ex_iff)
  then show ?thesis
    using assms by (simp add: filled_column_def convert_column_def pd_to_numeric_def)
qed

lemma has_data_loaded_manager: "has_data loaded_manager"
  by (simp add: loaded_manager_def set_data_def set_data_try_def has_data_def shape_def
      example_table_def example_env_def convert_column_def pd_to_numeric_def fillna0_def
      fillna_raises_def filled_column_def create_anndata_def DataManager_init_def Let_def)

text \<open>
  Claim C4. For an input that is \<open>None\<close>, that is not a DataFrame, or that is a table
  with no row or no column, \<open>set_data\<close> raises ValueError (the ValidationError of the
  specification's taxonomy) and \<open>has_data()\<close> is false afterwards, whatever was loaded
  before the call.
\<close>

theorem set_data_invalid_raises:
  assumes "data = PyNone \<or> data = NotDataFrame
      \<or> (\<exists>df. data = DataFrame df \<and> (fst (shape df) = 0 \<or> snd (shape df) = 0))"
  shows "(\<exists>msg. fst (set_data env s data metadata) = Inl (ValueError msg))
     \<and> \<not> has_data (snd (set_data env s data metadata))"
  using assms by (auto simp: set_data_def set_data_try_def has_data_def)

text \<open>
  An instance: a manager that holds a valid table is given the empty table; the call
  raises and no data is loaded after it.
\<close>

theorem set_data_invalid_raises_witness:
  "has_data loaded_manager
   \<and> (\<exists>msg. fst (set_data example_env loaded_manager (DataFrame empty_table) None)
               = Inl (ValueError msg))
   \<and> \<not> has_data (snd (set_data example_env loaded_manager (DataFrame empty_table) None))"
proof -
  have "DataFrame empty_table = PyNone \<or> DataFrame empty_table = NotDataFrame
      \<or> (\<exists>df. DataFrame empty_table = DataFrame df \<and> (fst (shape df) = 0 \<or> snd (shape df) = 0))"
    by (simp add: empty_table_def shape_def)
  from set_data_invalid_raises [OF this, of example_env loaded_manager None]
  show ?thesis
    using has_data_loaded_manager by simp
qed

text \<open>
  Claim C5, as the code has it. The claim says that every non-numeric column is coerced
  and every cell that does not convert is zero. The loop of \<open>set_data\<close> converts the
  columns whose dtype is \<open>object\<close> and no other. For a table with at least one row and
  one column, whose column labels are distinct or which has no column of dtype object,
  and on whose columns \<open>fillna(0)\<close> does not raise: \<open>set_data\<close> returns the table it
  stores, \<open>has_data()\<close> is true and the shape in \<open>get_data_summary()\<close> is the shape of
  the input. In the table stored each column keeps its label and its length; a column
  of dtype object has become numeric, each of its strings replaced by the number it
  parses to, or by zero when it does not parse; every missing cell of every column is
  zero; a number is unchanged; a string in a column of another dtype than object is
  unchanged.
\<close>

theorem set_data_valid_table:
  assumes "0 < fst (shape df)" and "0 < snd (shape df)"
    and "\<not> list_ex (\<lambda>c. col_dtype c = ObjectDtype) (df_columns df)
         \<or> distinct (map col_label (df_columns df))"
    and "\<forall>c \<in> set (df_columns df). fillna_raises env c = None"
  shows "\<exists>d sm.
     fst (set_data env s (DataFrame df) metadata) = Inr d
     \<and> current_data (snd (set_data env s (DataFrame df) metadata)) = Some d
     \<and> has_data (snd (set_data env s (DataFrame df) metadata))
     \<and> get_data_summary env (snd (set_data env s (DataFrame df) metadata)) = DataLoaded sm
     \<and> summary_shape sm = shape df
     \<and> shape d = shape df
     \<and> (\<forall>j < length (df_columns df).
           col_label (df_columns d ! j) = col_label (df_columns df ! j)
           \<and> length (col_cells (df_columns d ! j)) = length (col_cells (df_columns df ! j))
           \<and> (col_dtype (df_columns df ! j) = ObjectDtype
                \<longrightarrow> col_dtype (df_columns d ! j) = NumericDtype)
           \<and> (\<forall>i < length (col_cells (df_columns df ! j)).
                 col_cells (df_columns d ! j) ! i =
                   (case col_cells (df_columns df ! j) ! i of
                      Num v \<Rightarrow> Num v
                    | NaN \<Rightarrow> Num 0
                    | Str t \<Rightarrow>
                        if col_dtype (df_columns df ! j) = ObjectDtype
                        then (case parse_number env t of Some v \<Rightarrow> Num v | None \<Rightarrow> Num 0)
                        else Str t)))"
proof -
  define cols where "cols = (if list_ex (\<lambda>c. col_dtype c = ObjectDtype) (df_columns df)
                  then map (convert_column (parse_number env)) (df_columns df)
                  else df_columns df)"
  define d where "d = df\<lparr>df_columns := map filled_column cols\<rparr>"
  define s' where "s' = snd (set_data env s (DataFrame df) metadata)"
  have res: "fst (set_data env s (DataFrame df) metadata) = Inr d"
    and cur: "current_data s' = Some d"
    unfolding s'_def d_def cols_def
    by (simp_all add: set_data_stores [OF assms] Let_def create_anndata_def has_data_def
        split: option.splits)
  have sh: "shape d = shape df"
    by (simp add: d_def cols_def shape_def)
  have has: "has_data s'"
    using cur sh assms(1,2) by (simp add: has_data_def)
  have "\<exists>sm. get_data_summary env s' = DataLoaded sm \<and> summary_shape sm = shape df"
    using cur sh has by (simp add: get_data_summary_def)
  then obtain sm where sm: "get_data_summary env s' = DataLoaded sm" "summary_shape sm = shape df"
    by blast
  have dcols: "df_columns d = map filled_column
       (if list_ex (\<lambda>c. col_dtype c = ObjectDtype) (df_columns df)
        then map (convert_column (parse_number env)) (df_columns df)
        else df_columns df)"
    by (simp add: d_def cols_def)
  have cells: "\<forall>j < length (df_columns df).
           col_label (df_columns d ! j) = col_label (df_columns df ! j)
           \<and> length (col_cells (df_columns d ! j)) = length (col_cells (df_columns df ! j))
           \<and> (col_dtype (df_columns df ! j) = ObjectDtype
                \<longrightarrow> col_dtype (df_columns d ! j) = NumericDtype)
           \<and> (\<forall>i < length (col_cells (df_columns df ! j)).
                 col_cells (df_columns d ! j) ! i =
                   (case col_cells (df_columns df ! j) ! i of
                      Num v \<Rightarrow> Num v
                    | NaN \<Rightarrow> Num 0
                    | Str t \<Rightarrow>
                        if col_dtype (df_columns df ! j) = ObjectDtype
                        then (case parse_number env t of Some v \<Rightarrow> Num v | None \<Rightarrow> Num 0)
                        else Str t))"
    unfolding dcols
    by (intro allI impI conjI stored_cell stored_column_label stored_column_length
        stored_column_dtype) assumption+
  from res cur has sm sh cells show ?thesis
    unfolding s'_def by blast
qed

text \<open>
  An instance: two samples, a numeric column with a missing cell and an \<open>object\<close>
  column with a string that parses (to 7) and one that does not.
\<close>

theorem set_data_valid_table_witness:
  "\<exists>d sm.
     fst (set_data example_env DataManager_init (DataFrame example_table) None) = Inr d
     \<and> has_data (snd (set_data example_env DataManager_init (DataFrame example_table) None))
     \<and> get_data_summary example_env
         (snd (set_data example_env DataManager_init (DataFrame example_table) None)) = DataLoaded sm
     \<and> summary_shape sm = (2, 2)
     \<and> col_dtype (df_columns d ! 1) = NumericDtype
     \<and> col_cells (df_columns d ! 0) ! 1 = Num 0
     \<and> col_cells (df_columns d ! 1) ! 0 = Num 7
     \<and> col_cells (df_columns d ! 1) ! 1 = Num 0"
proof -
  have h1: "0 < fst (shape example_table)" and h2: "0 < snd (shape example_table)"
    by (simp_all add: shape_def example_table_def)
  have h3: "\<not> list_ex (\<lambda>c. col_dtype c = ObjectDtype) (df_columns example_table)
         \<or> distinct (map col_label (df_columns example_table))"
    by (simp add: example_table_def)
  have h4: "\<forall>c \<in> set (df_columns example_table). fillna_raises example_env c = None"
    by (simp add: example_table_def fillna_raises_def)
  from set_data_valid_table [OF h1 h2 h3 h4, of DataManager_init None]
  obtain d sm where
    r: "fst (set_data example_env DataManager_init (DataFrame example_table) None) = Inr d"
    and h: "has_data (snd (set_data example_env DataManager_init (DataFrame example_table) None))"
    and g: "get_data_summary example_env
         (snd (set_data example_env DataManager_init (DataFrame example_table) None)) = DataLoaded sm"
    and sh: "summary_shape sm = shape example_table"
    and cells: "\<forall>j < length (df_columns example_table).
           col_label (df_columns d ! j) = col_label (df_columns example_table ! j)
           \<and> length (col_cells (df_columns d ! j)) = length (col_cells (df_columns example_table ! j))
           \<and> (col_dtype (df_columns example_table ! j) = ObjectDtype
                \<longrightarrow> col_dtype (df_columns d ! j) = NumericDtype)
           \<and> (\<forall>i < length (col_cells (df_columns example_table ! j)).
                 col_cells (df_columns d ! j) ! i =
                   (case col_cells (df_columns example_table ! j) ! i of
                      Num v \<Rightarrow> Num v
                    | NaN \<Rightarrow> Num 0
                    | Str t \<Rightarrow>
                        if col_dtype (df_columns example_table ! j) = ObjectDtype
                        then (case parse_number example_env t of Some v \<Rightarrow> Num v | None \<Rightarrow> Num 0)
                        else Str t))"
    by blast
  have c0: "col_cells (df_columns d ! 0) ! 1 = Num 0"
    using cells [rule_format, of 0, THEN conjunct2, THEN conjunct2, THEN conjunct2, rule_format, of 1]
    by (simp add: example_table_def)
  have c1: "col_cells (df_columns d ! 1) ! 0 = Num 7"
    using cells [rule_format, of 1, THEN conjunct2, THEN conjunct2, THEN conjunct2, rule_format, of 0]
    by (simp add: example_table_def example_env_def)
  have c2: "col_cells (df_columns d ! 1) ! 1 = Num 0"
    using cells [rule_format, of 1, THEN conjunct2, THEN conjunct2, THEN conjunct2, rule_format, of 1]
    by (simp add: example_table_def example_env_def)
  have t1: "col_dtype (df_columns d ! 1) = NumericDtype"
    using cells [rule_format, of 1, THEN conjunct2, THEN conjunct2, THEN conjunct1]
    by (simp add: example_table_def)
  have "summary_shape sm = (2, 2)"
    using sh by (simp add: shape_def example_table_def)
  with r h g t1 c0 c1 c2 show ?thesis by blast
qed

text \<open>
  Against C5 as stated. A table whose only column has a string dtype (not \<open>object\<close>) and
  holds \<open>"7"\<close> and \<open>"n/a"\<close>: \<open>set_data\<close> succeeds and stores both strings as they are,
  none coerced and none zero. A table with an \<open>object\<close> column whose label names a
  second column: \<open>set_data\<close> raises AttributeError and \<open>has_data()\<close> is false. And a
  table with a category column that holds a missing cell, where \<open>fillna(0)\<close> raises:
  \<open>set_data\<close> raises and \<open>has_data()\<close> is false.
\<close>

theorem set_data_coercion_counterexample:
  "0 < fst (shape string_table) \<and> 0 < snd (shape string_table)
   \<and> fst (set_data example_env DataManager_init (DataFrame string_table) None) = Inr string_table
   \<and> col_cells (df_columns string_table ! 0) = [Str ''7'', Str ''n/a'']
   \<and> 0 < fst (shape repeated_label_table) \<and> 0 < snd (shape repeated_label_table)
   \<and> fst (set_data example_env DataManager_init (DataFrame repeated_label_table) None)
       = Inl (AttributeError no_dtype_message)
   \<and> \<not> has_data (snd (set_data example_env DataManager_init (DataFrame repeated_label_table) None))
   \<and> 0 < fst (shape category_table) \<and> 0 < snd (shape category_table)
   \<and> isl (fst (set_data example_env DataManager_init (DataFrame category_table) None))
   \<and> \<not> has_data (snd (set_data example_env DataManager_init (DataFrame category_table) None))"
  by (simp add: set_data_def set_data_try_def has_data_def shape_def string_table_def
      repeated_label_table_def category_table_def example_env_def fillna0_def fillna_raises_def
      filled_column_def Let_def)

section \<open>Properties of the plot collection\<close>


text \<open>
  Claim C9. \<open>get_latest_plots(0)\<close> returns the whole collection: the slice
  \<open>latest_plots[-0:]\<close> starts at index 0.
\<close>

theorem get_latest_plots_zero_is_all:
  "get_latest_plots s (Some 0) = latest_plots s"
  by (simp add: get_latest_plots_def py_slice_from_def)

text \<open>An instance: with two plots stored, \<open>get_latest_plots(0)\<close> has two entries, not none.\<close>

theorem get_latest_plots_zero_is_all_witness:
  "length (get_latest_plots
     (run_ops [AddPlot (example_figure ''a'') None None ''t1'' ''t1'',
               AddPlot (example_figure ''b'') None None ''t2'' ''t2''] DataManager_init)
     (Some 0)) = 2"
proof -
  have "length (latest_plots
     (run_ops [AddPlot (example_figure ''a'') None None ''t1'' ''t1'',
               AddPlot (example_figure ''b'') None None ''t2'' ''t2''] DataManager_init)) = 2"
    by (simp add: add_plot_def example_figure_def DataManager_init_def Let_def)
  then show ?thesis
    by (simp only: get_latest_plots_zero_is_all)
qed

text \<open>
  \<open>str\<close> of an integer is injective: the digits are the characters 48 to 57, the
  rendering of a natural number has no sign, and equal renderings have equal digits.
\<close>

lemma digit_codes:
  "of_char (digit_char 0) = (48 + 0 :: nat)" "of_char (digit_char 1) = (48 + 1 :: nat)"
  "of_char (digit_char 2) = (48 + 2 :: nat)" "of_char (digit_char 3) = (48 + 3 :: nat)"
  "of_char (digit_char 4) = (48 + 4 :: nat)" "of_char (digit_char 5) = (48 + 5 :: nat)"
  "of_char (digit_char 6) = (48 + 6 :: nat)" "of_char (digit_char 7) = (48 + 7 :: nat)"
  "of_char (digit_char 8) = (48 + 8 :: nat)" "of_char (digit_char 9) = (48 + 9 :: nat)"
  by (simp_all add: digit_char_def)

lemma digit_char_code: "d < 10 \<Longrightarrow> of_char (digit_char d) = (48 + d :: nat)"
proof -
  assume "d < 10"
  then have "d = 0 \<or> d = 1 \<or> d = 2 \<or> d = 3 \<or> d = 4 \<or> d = 5 \<or> d = 6 \<or> d = 7 \<or> d = 8 \<or> d = 9"
    by arith
  then show ?thesis
    by (elim disjE; simp only: digit_codes)
qed

lemma digit_char_inj:
  assumes "d < 10" and "e < 10" and "digit_char d = digit_char e"
  shows "d = e"
proof -
  have "(48 + d :: nat) = of_char (digit_char d)"
    using assms(1) by (simp only: digit_char_code)
  also have "\<dots> = of_char (digit_char e)"
    by (simp only: assms(3))
  also have "\<dots> = 48 + e"
    using assms(2) by (simp only: digit_char_code)
  finally show ?thesis by simp
qed

lemma py_str_nat_small: "n < 10 \<Longrightarrow> py_str_nat n = [digit_char n]"
  by (simp add: py_str_nat.simps)

lemma py_str_nat_large:
  "\<not> n < 10 \<Longrightarrow> py_str_nat n = py_str_nat (n div 10) @ [digit_char (n mod 10)]"
  by (subst py_str_nat.simps) simp

lemma py_str_nat_nonempty: "py_str_nat n \<noteq> []"
  by (cases "n < 10") (simp_all add: py_str_nat_small py_str_nat_large)

lemma py_str_nat_digits: "c \<in> set (py_str_nat n) \<Longrightarrow> \<exists>d < 10. c = digit_char d"
proof (induction n rule: py_str_nat.induct)
  case (1 n)
  show ?case
  proof (cases "n < 10")
    case True
    with "1.prems" show ?thesis by (auto simp: py_str_nat_small)
  next
    case False
    from False "1.prems" have "c \<in> set (py_str_nat (n div 10)) \<or> c = digit_char (n mod 10)"
      by (auto simp: py_str_nat_large)
    then show ?thesis
    proof
      assume "c \<in> set (py_str_nat (n div 10))"
      with False "1.IH" show ?thesis by simp
    next
      assume "c = digit_char (n mod 10)"
      moreover have "n mod 10 < 10" by simp
      ultimately show ?thesis by blast
    qed
  qed
qed

lemma py_str_nat_inj: "py_str_nat m = py_str_nat n \<Longrightarrow> m = n"
proof (induction m arbitrary: n rule: py_str_nat.induct)
  case (1 m)
  show ?case
  proof (cases "m < 10")
    case m: True
    show ?thesis
    proof (cases "n < 10")
      case True
      with m "1.prems" show ?thesis
        by (simp add: py_str_nat_small digit_char_inj)
    next
      case False
      with m "1.prems" py_str_nat_nonempty [of "n div 10"] show ?thesis
        by (simp add: py_str_nat_small py_str_nat_large)
    qed
  next
    case m: False
    show ?thesis
    proof (cases "n < 10")
      case True
      with m "1.prems" py_str_nat_nonempty [of "m div 10"] show ?thesis
        by (simp add: py_str_nat_small py_str_nat_large)
    next
      case False
      with m "1.prems" have a: "py_str_nat (m div 10) = py_str_nat (n div 10)"
        and b: "digit_char (m mod 10) = digit_char (n mod 10)"
        by (simp_all add: py_str_nat_large)
      from a have "m div 10 = n div 10"
        using "1.IH" m by simp
      moreover have "m mod 10 = n mod 10"
        using b by (intro digit_char_inj) simp_all
      ultimately show ?thesis
        by (metis div_mult_mod_eq)
    qed
  qed
qed

lemma minus_not_digit: "CHR ''-'' \<notin> set (py_str_nat n)"
proof
  assume "CHR ''-'' \<in> set (py_str_nat n)"
  then obtain d where "d < 10" "CHR ''-'' = digit_char d"
    using py_str_nat_digits by blast
  then have "of_char (CHR ''-'') = (48 + d :: nat)"
    using digit_char_code by simp
  then show False by simp
qed

lemma py_str_nat_no_sign: "py_str_nat n \<noteq> CHR ''-'' # t"
proof
  assume "py_str_nat n = CHR ''-'' # t"
  then have "CHR ''-'' \<in> set (py_str_nat n)" by simp
  with minus_not_digit show False by blast
qed

lemma py_str_int_inj: "py_str_int i = py_str_int j \<Longrightarrow> i = j"
proof -
  assume eq: "py_str_int i = py_str_int j"
  show ?thesis
  proof (cases "i < 0")
    case i: True
    show ?thesis
    proof (cases "j < 0")
      case True
      with i eq have "py_str_nat (nat (- i)) = py_str_nat (nat (- j))"
        by (simp add: py_str_int_def)
      then have "nat (- i) = nat (- j)" by (rule py_str_nat_inj)
      with i True show ?thesis by simp
    next
      case False
      with i eq have "py_str_nat (nat j) = CHR ''-'' # py_str_nat (nat (- i))"
        by (simp add: py_str_int_def)
      with py_str_nat_no_sign show ?thesis by blast
    qed
  next
    case i: False
    show ?thesis
    proof (cases "j < 0")
      case True
      with i eq have "py_str_nat (nat i) = CHR ''-'' # py_str_nat (nat (- j))"
        by (simp add: py_str_int_def)
      with py_str_nat_no_sign show ?thesis by blast
    next
      case False
      with i eq have "py_str_nat (nat i) = py_str_nat (nat j)"
        by (simp add: py_str_int_def)
      then have "nat i = nat j" by (rule py_str_nat_inj)
      with i False show ?thesis by simp
    qed
  qed
qed

text \<open>Two plot ids are equal only when they are made from the same counter.\<close>

lemma plot_id_inj:
  "plot_id (make_plot_entry i f t src a b) = plot_id (make_plot_entry j f' t' src' a' b') \<Longrightarrow> i = j"
  by (simp add: make_plot_entry_def py_str_int_inj)

lemma exec_max_plots_history [simp]: "max_plots_history (exec x s) = max_plots_history s"
  by (cases x)
    (auto simp: add_plot_def clear_plots_def log_tool_usage_def set_data_def set_data_try_def
      create_anndata_def Let_def split: py_plot.splits py_data.splits sum.splits option.splits)

lemma run_ops_max_plots_history [simp]: "max_plots_history (run_ops ops s) = max_plots_history s"
  by (induction ops arbitrary: s) simp_all

lemma max_plots_history_set_data [simp]:
  "max_plots_history (snd (set_data env s data metadata)) = max_plots_history s"
  by (auto simp: set_data_def set_data_try_def create_anndata_def Let_def
      split: py_data.splits sum.splits option.splits)


lemma latest_plots_set_data [simp]:
  "latest_plots (snd (set_data env s data metadata)) = latest_plots s"
  by (auto simp: set_data_def set_data_try_def create_anndata_def Let_def
      split: py_data.splits sum.splits option.splits)

lemma plot_counter_set_data [simp]:
  "plot_counter (snd (set_data env s data metadata)) = plot_counter s"
  by (auto simp: set_data_def set_data_try_def create_anndata_def Let_def
      split: py_data.splits sum.splits option.splits)

lemma add_plot_figure:
  "add_plot s (Figure fig) title source now_iso now =
     (Some (plot_id (make_plot_entry (plot_counter s + 1) fig title source now_iso now)),
      s\<lparr>plot_counter := plot_counter s + 1,
        latest_plots :=
          (if int (length (latest_plots s)) + 1 > max_plots_history s
           then tl (latest_plots s @ [make_plot_entry (plot_counter s + 1) fig title source now_iso now])
           else latest_plots s @ [make_plot_entry (plot_counter s + 1) fig title source now_iso now])\<rparr>)"
  by (simp add: add_plot_def Let_def)




lemma add_plot_appends:
  assumes "int (length (latest_plots s)) < max_plots_history s"
  shows "latest_plots (snd (add_plot s (Figure fig) title source now_iso now))
     = latest_plots s @ [make_plot_entry (plot_counter s + 1) fig title source now_iso now]"
  using assms by (simp add: add_plot_figure)



lemma entries_from_length [simp]: "length (entries_from k args) = length args"
  by (induction args arbitrary: k) simp_all
























section \<open>Properties of the tool usage log\<close>

lemma tool_usage_history_set_data [simp]:
  "tool_usage_history (snd (set_data env s data metadata)) = tool_usage_history s"
  by (auto simp: set_data_def set_data_try_def create_anndata_def Let_def
      split: py_data.splits sum.splits option.splits)











section \<open>Properties of a non-streaming query turn\<close>









section \<open>Properties of the export package\<close>

























end
